theory Spec2Isabelle
  imports Complex_Main "HOL-Library.Word" "HOL-Library.Sublist"
begin

section \<open>The bank support prompt chain (\<^verbatim>\<open>src/prompt-chain.js\<close>)\<close>

text \<open>
  The module sends a customer query through five calls of a text-generation service, each
  prompt built from the query and from the texts the earlier calls returned. The embedding
  follows the source function by function: \<^verbatim>\<open>callTogetherAI\<close>, \<^verbatim>\<open>runPromptChain\<close> and
  \<^verbatim>\<open>main\<close>. The network is a parameter; every \<^verbatim>\<open>throw\<close> is a value of a sum type; the
  requests sent and the pauses made are recorded in the state, in order. Console output is
  not modelled, except for the message that \<^verbatim>\<open>main\<close> ends with.
\<close>

subsection \<open>JavaScript strings\<close>

text \<open>
  A JavaScript string is a sequence of 16-bit code units. \<open>js\<close> reads an ASCII literal of
  the source as such a sequence.
\<close>

type_synonym code_unit = "16 word"
type_synonym jsstring = "code_unit list"

definition js :: "string \<Rightarrow> jsstring" where
  "js s = map of_char s"

definition colon :: code_unit where
  "colon = 0x3A"

text \<open>
  \<^verbatim>\<open>String.prototype.trim\<close> removes white space and line terminators from both ends:
  TAB, LF, VT, FF, CR, SPACE, NBSP, U+1680, U+2000 to U+200A, U+2028, U+2029, U+202F,
  U+205F, U+3000 and U+FEFF. All of them are single code units.
\<close>

definition is_space :: "code_unit \<Rightarrow> bool" where
  "is_space c \<longleftrightarrow>
     c \<in> {0x09, 0x0A, 0x0B, 0x0C, 0x0D, 0x20, 0xA0, 0x1680, 0x2028, 0x2029, 0x202F,
          0x205F, 0x3000, 0xFEFF}
     \<or> (0x2000 \<le> c \<and> c \<le> 0x200A)"

definition trim :: "jsstring \<Rightarrow> jsstring" where
  "trim s = rev (dropWhile is_space (rev (dropWhile is_space s)))"

text \<open>
  \<^verbatim>\<open>s.split(sep)\<close> for a separator of one code unit: the pieces between the occurrences
  of the separator, in order. The result always has a first piece.
\<close>

fun split :: "code_unit \<Rightarrow> jsstring \<Rightarrow> jsstring list" where
  "split sep [] = [[]]"
| "split sep (c # cs) =
     (if c = sep then [] # split sep cs
      else (case split sep cs of
              [] \<Rightarrow> [[c]]
            | piece # pieces \<Rightarrow> (c # piece) # pieces))"

subsection \<open>Parsed JSON and errors\<close>

text \<open>What \<^verbatim>\<open>response.json()\<close> produces. An object is the list of its members.\<close>

datatype json =
    JNull
  | JBool bool
  | JNum rat  \<comment> \<open>the code never looks at a number\<close>
  | JStr jsstring
  | JArr "json list"
  | JObj "(jsstring \<times> json) list"

text \<open>
  What the module can throw. \<open>FetchFailed\<close> (a rejected \<^verbatim>\<open>fetch\<close>) and \<open>BodyUnreadable\<close>
  (a rejected \<^verbatim>\<open>response.json()\<close>) come from the platform, with their message, and are
  handed on unchanged; \<open>ApiError\<close> is the \<^verbatim>\<open>Error\<close> built at line 55 from the status and
  the parsed error body; \<open>TypeError\<close> is a property read on \<^verbatim>\<open>undefined\<close> or \<^verbatim>\<open>null\<close>,
  or a call of something that is no function.
\<close>

datatype js_error =
    FetchFailed jsstring
  | BodyUnreadable jsstring
  | ApiError nat json
  | TypeError

definition try_bind :: "js_error + 'a \<Rightarrow> ('a \<Rightarrow> js_error + 'b) \<Rightarrow> js_error + 'b" where
  "try_bind r f = (case r of Inl e \<Rightarrow> Inl e | Inr x \<Rightarrow> f x)"

subsection \<open>Stage 4: the category name (line 129)\<close>

text \<open>
  \<^verbatim>\<open>selectedCategory.split(':')[0].trim()\<close>. Reading index 0 of an empty array would give
  \<^verbatim>\<open>undefined\<close>, whose \<^verbatim>\<open>trim\<close> throws; that branch is kept.
\<close>

definition categoryName :: "jsstring \<Rightarrow> js_error + jsstring" where
  "categoryName selectedCategory =
     (case split colon selectedCategory of
        [] \<Rightarrow> Inl TypeError
      | part # _ \<Rightarrow> Inr (trim part))"

subsection \<open>The completion service\<close>

text \<open>
  The JSON body that \<^verbatim>\<open>callTogetherAI\<close> posts (lines 38 to 50); \<open>role\<close> and \<open>content\<close>
  are its single message. The URL and the headers are the same for every call and are
  left out. Temperatures are the decimal literals of the source, as rationals (0.3 and
  0.5 round to distinct doubles in the same order).
\<close>

record request =
  model :: jsstring
  role :: jsstring
  content :: jsstring
  temperature :: rat
  max_tokens :: nat
  top_p :: rat
  stop :: "jsstring list"

definition MODEL :: jsstring where
  "MODEL = js ''meta-llama/Llama-3-70b-chat-hf''"

text \<open>
  What \<^verbatim>\<open>fetch\<close> resolves to: the status and what \<^verbatim>\<open>response.json()\<close> gives, which is
  an error when the body is empty or no JSON text. \<^verbatim>\<open>response.ok\<close> is a status from 200
  to 299.
\<close>

record response =
  status :: nat
  body :: "js_error + json"

definition ok :: "response \<Rightarrow> bool" where
  "ok r \<longleftrightarrow> 200 \<le> status r \<and> status r \<le> 299"

text \<open>
  The network is any function from its own state \<open>'w\<close> and a request to what \<^verbatim>\<open>fetch\<close>
  gives (\<open>Inl\<close>: the promise rejects) and a new state. The program state holds the
  network state and the log of what the program did to the outside: each request with
  its outcome, and each pause.
\<close>

type_synonym 'w service = "'w \<Rightarrow> request \<Rightarrow> (js_error + response) \<times> 'w"

datatype event = Fetch request "js_error + response" | Sleep nat

record 'w state =
  world :: 'w
  events :: "event list"

definition fetch :: "'w service \<Rightarrow> request \<Rightarrow> 'w state \<Rightarrow> (js_error + response) \<times> 'w state" where
  "fetch svc req st =
     (case svc (world st) req of
        (outcome, w') \<Rightarrow> (outcome, st\<lparr>world := w', events := events st @ [Fetch req outcome]\<rparr>))"

subsubsection \<open>Property reads on parsed JSON\<close>

text \<open>
  The value of a JavaScript expression over parsed JSON is a JSON value or \<^verbatim>\<open>undefined\<close>.
  An object built by \<^verbatim>\<open>JSON.parse\<close> has the members of the text as own properties, the
  last one winning among equal keys.
\<close>

datatype jsval = Undefined | Val json

definition own :: "(jsstring \<times> json) list \<Rightarrow> jsstring \<Rightarrow> jsval" where
  "own members k = (case map_of (rev members) k of None \<Rightarrow> Undefined | Some v \<Rightarrow> Val v)"

text \<open>
  \<^verbatim>\<open>x.name\<close> for the names the module reads (\<^verbatim>\<open>choices\<close>, \<^verbatim>\<open>message\<close>, \<^verbatim>\<open>content\<close>):
  no prototype defines them, so only an object can have them; reading them on
  \<^verbatim>\<open>undefined\<close> or \<^verbatim>\<open>null\<close> throws.
\<close>

fun get_named :: "string \<Rightarrow> jsval \<Rightarrow> js_error + jsval" where
  "get_named name Undefined = Inl TypeError"
| "get_named name (Val JNull) = Inl TypeError"
| "get_named name (Val (JObj members)) = Inr (own members (js name))"
| "get_named name (Val _) = Inr Undefined"

text \<open>\<^verbatim>\<open>x[0]\<close>: the first element of an array, the first code unit of a string, the
  property \<^verbatim>\<open>"0"\<close> of an object.\<close>

fun get_index0 :: "jsval \<Rightarrow> js_error + jsval" where
  "get_index0 Undefined = Inl TypeError"
| "get_index0 (Val JNull) = Inl TypeError"
| "get_index0 (Val (JArr [])) = Inr Undefined"
| "get_index0 (Val (JArr (x # _))) = Inr (Val x)"
| "get_index0 (Val (JStr [])) = Inr Undefined"
| "get_index0 (Val (JStr (c # _))) = Inr (Val (JStr [c]))"
| "get_index0 (Val (JObj members)) = Inr (own members (js ''0''))"
| "get_index0 (Val _) = Inr Undefined"

text \<open>\<^verbatim>\<open>x.trim()\<close>: only a string has a callable \<^verbatim>\<open>trim\<close>; an own property \<^verbatim>\<open>trim\<close>
  of a parsed object is JSON, never a function.\<close>

fun call_trim :: "jsval \<Rightarrow> js_error + jsstring" where
  "call_trim (Val (JStr s)) = Inr (trim s)"
| "call_trim _ = Inl TypeError"

text \<open>\<^verbatim>\<open>data.choices[0].message.content\<close> and its \<^verbatim>\<open>.trim()\<close> (line 59).\<close>

definition message_content :: "json \<Rightarrow> js_error + jsval" where
  "message_content data =
     try_bind (get_named ''choices'' (Val data)) (\<lambda>choices.
     try_bind (get_index0 choices) (\<lambda>choice.
     try_bind (get_named ''message'' choice) (\<lambda>message.
     get_named ''content'' message)))"

definition generated_text :: "json \<Rightarrow> js_error + jsstring" where
  "generated_text data = try_bind (message_content data) call_trim"

subsubsection \<open>\<^verbatim>\<open>callTogetherAI\<close> (lines 30 to 64)\<close>

text \<open>
  What the function makes of the outcome of \<^verbatim>\<open>fetch\<close> (lines 53 to 63). The \<^verbatim>\<open>catch\<close>
  logs and throws the same error again.
\<close>

definition reply_text :: "js_error + response \<Rightarrow> js_error + jsstring" where
  "reply_text outcome =
     (case outcome of
        Inl error \<Rightarrow> Inl error
      | Inr response \<Rightarrow>
          if \<not> ok response then
            (case body response of
               Inl error \<Rightarrow> Inl error
             | Inr errorData \<Rightarrow> Inl (ApiError (status response) errorData))
          else
            (case body response of
               Inl error \<Rightarrow> Inl error
             | Inr data \<Rightarrow> generated_text data))"

text \<open>The chain passes both optional parameters at every call, so the defaults
  (0.3 and 500) are never used.\<close>

definition request_body :: "jsstring \<Rightarrow> rat \<Rightarrow> nat \<Rightarrow> request" where
  "request_body prompt temp maxTokens =
     \<lparr>model = MODEL, role = js ''user'', content = prompt, temperature = temp,
      max_tokens = maxTokens, top_p = 9 / 10,
      stop = [js ''<|eot_id|>'', js ''<|end_of_text|>'']\<rparr>"

definition callTogetherAI ::
  "'w service \<Rightarrow> jsstring \<Rightarrow> rat \<Rightarrow> nat \<Rightarrow> 'w state \<Rightarrow> (js_error + jsstring) \<times> 'w state" where
  "callTogetherAI svc prompt temp maxTokens st =
     (case fetch svc (request_body prompt temp maxTokens) st of
        (outcome, st') \<Rightarrow> (reply_text outcome, st'))"

subsection \<open>The chain: \<^verbatim>\<open>runPromptChain\<close> (lines 72 to 172)\<close>

text \<open>The five template literals.\<close>

definition prompt1 :: "jsstring \<Rightarrow> jsstring" where
  \<open>prompt1 query =
     js (''Analyze the following customer query and identify the primary intent. What is the customer trying to accomplish or what problem are they reporting?\<newline>''
       @ ''\<newline>''
       @ ''Customer Query: '')
   @ query
   @ js (''\<newline>''
       @ ''\<newline>''
       @ ''Provide a clear, one-sentence summary of the customer's intent. Focus on the underlying need or goal, not just the literal words used.'')\<close>

definition prompt2 :: "jsstring \<Rightarrow> jsstring" where
  \<open>prompt2 intent =
     js (''Based on the customer's intent, suggest 1-3 possible categories that could apply from this list:\<newline>''
       @ ''- Account Opening\<newline>''
       @ ''- Billing Issue\<newline>''
       @ ''- Account Access\<newline>''
       @ ''- Transaction Inquiry\<newline>''
       @ ''- Card Services\<newline>''
       @ ''- Account Statement\<newline>''
       @ ''- Loan Inquiry\<newline>''
       @ ''- General Information\<newline>''
       @ ''\<newline>''
       @ ''Customer Intent: '')
   @ intent
   @ js (''\<newline>''
       @ ''\<newline>''
       @ ''List the categories in order of relevance (most relevant first). For each category, provide a brief reason why it might apply.'')\<close>

definition prompt3 :: "jsstring \<Rightarrow> jsstring \<Rightarrow> jsstring \<Rightarrow> jsstring" where
  \<open>prompt3 intent query categories =
     js (''Review the suggested categories and select the single most appropriate category for this customer query.\<newline>''
       @ ''\<newline>''
       @ ''Customer Intent: '')
   @ intent
   @ js (''\<newline>''
       @ ''Original Query: '')
   @ query
   @ js (''\<newline>''
       @ ''Suggested Categories: '')
   @ categories
   @ js (''\<newline>''
       @ ''\<newline>''
       @ ''Choose exactly ONE category from the suggestions and explain your choice in 1-2 sentences. Consider which category would lead to the most effective resolution of the customer's issue.\<newline>''
       @ ''\<newline>''
       @ ''Selected Category:'')\<close>

definition prompt4 :: "jsstring \<Rightarrow> jsstring \<Rightarrow> jsstring" where
  \<open>prompt4 name query =
     js (''Identify any additional details from the customer's query that would be relevant for addressing their request in the "'')
   @ name
   @ js (''" category.\<newline>''
       @ ''\<newline>''
       @ ''Original Query: '')
   @ query
   @ js (''\<newline>''
       @ ''\<newline>''
       @ ''Extract the following types of information if present:\<newline>''
       @ ''- Specific amounts (transaction amounts, fees, etc.)\<newline>''
       @ ''- Dates or time periods\<newline>''
       @ ''- Account types or numbers (last 4 digits only)\<newline>''
       @ ''- Card types (credit/debit)\<newline>''
       @ ''- Transaction descriptions or merchant names\<newline>''
       @ ''- Any error messages or specific symptoms\<newline>''
       @ ''\<newline>''
       @ ''List each detail found with its type. If no additional details are present, state "No additional details provided."'')\<close>

definition prompt5 :: "jsstring \<Rightarrow> jsstring \<Rightarrow> jsstring \<Rightarrow> jsstring \<Rightarrow> jsstring" where
  \<open>prompt5 selectedCategory intent details query =
     js (''Generate a professional, helpful response to the customer based on all the information gathered.\<newline>''
       @ ''\<newline>''
       @ ''Category: '')
   @ selectedCategory
   @ js (''\<newline>''
       @ ''Customer Intent: '')
   @ intent
   @ js (''\<newline>''
       @ ''Additional Details: '')
   @ details
   @ js (''\<newline>''
       @ ''Original Query: '')
   @ query
   @ js (''\<newline>''
       @ ''\<newline>''
       @ ''Your response should:\<newline>''
       @ ''- Acknowledge the customer's concern\<newline>''
       @ ''- Provide relevant next steps or information\<newline>''
       @ ''- Be concise (2-4 sentences)\<newline>''
       @ ''- Use a friendly, professional tone\<newline>''
       @ ''- Include any relevant details extracted from their query\<newline>''
       @ ''\<newline>''
       @ ''Response:'')\<close>

text \<open>
  \<^verbatim>\<open>await\<close>: run the first computation; if it throws, the function ends with that
  error and the state reached; otherwise go on with its value.
\<close>

definition await ::
  "('s \<Rightarrow> (js_error + 'a) \<times> 's) \<Rightarrow> ('a \<Rightarrow> 's \<Rightarrow> (js_error + 'b) \<times> 's) \<Rightarrow> 's \<Rightarrow> (js_error + 'b) \<times> 's" where
  "await m k st = (case m st of (Inl error, st') \<Rightarrow> (Inl error, st') | (Inr x, st') \<Rightarrow> k x st')"

definition returns :: "'a \<Rightarrow> 's \<Rightarrow> (js_error + 'a) \<times> 's" where
  "returns x st = (Inr x, st)"

text \<open>A step that makes no call: it gives its value or throws, and leaves the state.\<close>

definition sync :: "js_error + 'a \<Rightarrow> 's \<Rightarrow> (js_error + 'a) \<times> 's" where
  "sync r st = (r, st)"

definition runPromptChain ::
  "'w service \<Rightarrow> jsstring \<Rightarrow> 'w state \<Rightarrow> (js_error + jsstring list) \<times> 'w state" where
  "runPromptChain svc query =
     (let results = [] in
      await (callTogetherAI svc (prompt1 query) (3 / 10) 150) (\<lambda>intent.
      let results = results @ [intent] in
      await (callTogetherAI svc (prompt2 intent) (3 / 10) 250) (\<lambda>categories.
      let results = results @ [categories] in
      await (callTogetherAI svc (prompt3 intent query categories) (3 / 10) 150) (\<lambda>selectedCategory.
      let results = results @ [selectedCategory] in
      await (sync (categoryName selectedCategory)) (\<lambda>name.
      await (callTogetherAI svc (prompt4 name query) (3 / 10) 200) (\<lambda>details.
      let results = results @ [details] in
      await (callTogetherAI svc (prompt5 selectedCategory intent details query) (5 / 10) 300) (\<lambda>response.
      let results = results @ [response] in
      returns results)))))))"

subsection \<open>The batch runner: \<^verbatim>\<open>main\<close> (lines 177 to 247)\<close>

definition placeholder_key :: jsstring where
  "placeholder_key = js ''YOUR_TOGETHER_API_KEY_HERE''"

text \<open>Line 19: the environment variable, or the placeholder when it is unset or empty.\<close>

definition TOGETHER_API_KEY :: "jsstring option \<Rightarrow> jsstring" where
  "TOGETHER_API_KEY env =
     (case env of None \<Rightarrow> placeholder_key | Some k \<Rightarrow> if k = [] then placeholder_key else k)"

definition testQueries :: "jsstring list" where
  "testQueries =
     [js ''I was charged $50 fee yesterday and I don't know why'',
      js ''I want to open a savings account'',
      js ''I can't log into my online banking'',
      js ''Where is my pending transaction from Amazon?'',
      js ''My debit card is not working at ATMs'']"

definition sleep :: "nat \<Rightarrow> 'w state \<Rightarrow> 'w state" where
  "sleep ms st = st\<lparr>events := events st @ [Sleep ms]\<rparr>"

text \<open>
  The \<^verbatim>\<open>for\<close> loop of lines 204 to 233, from index \<open>i\<close> on. It sits inside the \<^verbatim>\<open>try\<close>:
  an error of \<^verbatim>\<open>runPromptChain\<close> leaves the loop.
\<close>

function for_loop ::
  "'w service \<Rightarrow> jsstring list \<Rightarrow> nat \<Rightarrow> 'w state \<Rightarrow> (js_error + unit) \<times> 'w state" where
  "for_loop svc queries i st =
     (if i < length queries then
        (case runPromptChain svc (queries ! i) st of
           (Inl error, st') \<Rightarrow> (Inl error, st')
         | (Inr results, st') \<Rightarrow>
             for_loop svc queries (i + 1)
               (if i < length queries - 1 then sleep 2000 st' else st'))
      else (Inr (), st))"
  by pat_completeness auto
termination
  by (relation "measure (\<lambda>(svc, queries, i, st). length queries - i)") auto

declare for_loop.simps [simp del]

text \<open>
  \<^verbatim>\<open>main\<close> returns nothing and never throws; what differs is the message it ends with:
  the request to set a key (line 180), the success line (line 236), or the error with the
  troubleshooting list (line 240).
\<close>

datatype closing = KeyMissing | AllCompleted | Troubleshooting js_error

definition main :: "'w service \<Rightarrow> jsstring option \<Rightarrow> 'w state \<Rightarrow> closing \<times> 'w state" where
  "main svc env st =
     (if TOGETHER_API_KEY env = placeholder_key then (KeyMissing, st)
      else (case for_loop svc testQueries 0 st of
              (Inl error, st') \<Rightarrow> (Troubleshooting error, st')
            | (Inr _, st') \<Rightarrow> (AllCompleted, st')))"

text \<open>
  The state in which the loop, started in \<open>st0\<close>, comes to iteration \<open>i\<close>: the runs on the
  queries before \<open>i\<close> have all returned, each followed by its pause. \<open>None\<close> when the loop
  does not come that far.
\<close>

primrec at_iteration ::
  "'w service \<Rightarrow> jsstring list \<Rightarrow> 'w state \<Rightarrow> nat \<Rightarrow> 'w state option" where
  "at_iteration svc queries st0 0 = Some st0"
| "at_iteration svc queries st0 (Suc i) =
     (case at_iteration svc queries st0 i of
        None \<Rightarrow> None
      | Some st \<Rightarrow>
          if i < length queries then
            (case runPromptChain svc (queries ! i) st of
               (Inl error, st') \<Rightarrow> None
             | (Inr results, st') \<Rightarrow>
                 Some (if i < length queries - 1 then sleep 2000 st' else st'))
          else None)"

subsection \<open>Traces of a run\<close>

text \<open>
  The request that the chain issues next, read off the five call sites (lines 87, 107, 123,
  144 and 166), as a function of the query and of the texts the earlier stages returned:
  with \<open>k - 1\<close> texts it is the request of stage \<open>k\<close>. There is no sixth stage.
\<close>

fun stage_request :: "jsstring \<Rightarrow> jsstring list \<Rightarrow> request option" where
  "stage_request query [] = Some (request_body (prompt1 query) (3 / 10) 150)"
| "stage_request query [intent] = Some (request_body (prompt2 intent) (3 / 10) 250)"
| "stage_request query [intent, categories] =
     Some (request_body (prompt3 intent query categories) (3 / 10) 150)"
| "stage_request query [intent, categories, selectedCategory] =
     (case categoryName selectedCategory of
        Inl _ \<Rightarrow> None
      | Inr name \<Rightarrow> Some (request_body (prompt4 name query) (3 / 10) 200))"
| "stage_request query [intent, categories, selectedCategory, details] =
     Some (request_body (prompt5 selectedCategory intent details query) (5 / 10) 300)"
| "stage_request query _ = None"

text \<open>
  A list of events is a run of the chain on \<open>query\<close>, continued from the outputs \<open>ctx\<close>,
  when each event is the request of the next stage, built from the query and from exactly
  the outputs before it, and a request follows another only if that one gave a text.
\<close>

fun follows_chain :: "jsstring \<Rightarrow> jsstring list \<Rightarrow> event list \<Rightarrow> bool" where
  "follows_chain query ctx [] = True"
| "follows_chain query ctx (Sleep _ # es) = False"
| "follows_chain query ctx (Fetch req outcome # es) =
     (stage_request query ctx = Some req \<and>
      (case reply_text outcome of
         Inl _ \<Rightarrow> es = []
       | Inr text \<Rightarrow> follows_chain query (ctx @ [text]) es))"

text \<open>What such a run returns: the first error, or all the texts in order.\<close>

fun chain_result :: "jsstring list \<Rightarrow> event list \<Rightarrow> js_error + jsstring list" where
  "chain_result ctx [] = Inr ctx"
| "chain_result ctx (Sleep _ # es) = chain_result ctx es"
| "chain_result ctx (Fetch req outcome # es) =
     (case reply_text outcome of
        Inl error \<Rightarrow> Inl error
      | Inr text \<Rightarrow> chain_result (ctx @ [text]) es)"

text \<open>
  The inputs that the specification (section 4.2) declares for the prompt of each stage,
  again by the outputs so far: the query for stage 1; the intent for stage 2; intent,
  query and categories for stage 3; the query and the category name (the text of the
  selected category before its first colon, trimmed) for stage 4; selected category,
  intent, details and query for stage 5.
\<close>

fun required_inputs :: "jsstring \<Rightarrow> jsstring list \<Rightarrow> jsstring list" where
  "required_inputs query [] = [query]"
| "required_inputs query [intent] = [intent]"
| "required_inputs query [intent, categories] = [intent, query, categories]"
| "required_inputs query [intent, categories, selectedCategory] =
     [query, trim (takeWhile (\<lambda>c. c \<noteq> colon) selectedCategory)]"
| "required_inputs query [intent, categories, selectedCategory, details] =
     [selectedCategory, intent, details, query]"
| "required_inputs query _ = []"

text \<open>Every prompt of the run contains each of its declared inputs as a contiguous piece.\<close>

fun embeds_inputs :: "jsstring \<Rightarrow> jsstring list \<Rightarrow> event list \<Rightarrow> bool" where
  "embeds_inputs query ctx [] = True"
| "embeds_inputs query ctx (Sleep _ # es) = False"
| "embeds_inputs query ctx (Fetch req outcome # es) =
     (list_all (\<lambda>text. sublist text (content req)) (required_inputs query ctx) \<and>
      (case reply_text outcome of
         Inl _ \<Rightarrow> es = []
       | Inr text \<Rightarrow> embeds_inputs query (ctx @ [text]) es))"

subsection \<open>Mocked completion services\<close>

text \<open>
  Services for concrete runs: one that gives the same outcome to every request, and one
  that counts the calls and rejects call number \<open>n\<close> (counting from 0), answering all
  others with a well-formed completion.
\<close>

definition completion :: "jsstring \<Rightarrow> json" where
  "completion text =
     JObj [(js ''choices'',
            JArr [JObj [(js ''message'',
                         JObj [(js ''role'', JStr (js ''assistant'')),
                               (js ''content'', JStr text)])]])]"

definition ok_reply :: "jsstring \<Rightarrow> js_error + response" where
  "ok_reply text = Inr \<lparr>status = 200, body = Inr (completion text)\<rparr>"

definition responds :: "js_error + response \<Rightarrow> 'w service" where
  "responds outcome w req = (outcome, w)"

definition answers :: "jsstring \<Rightarrow> 'w service" where
  "answers text = responds (ok_reply text)"

definition fails_on :: "nat \<Rightarrow> js_error \<Rightarrow> jsstring \<Rightarrow> nat service" where
  "fails_on n error text calls req = (if calls = n then Inl error else ok_reply text, calls + 1)"

definition start :: "'w \<Rightarrow> 'w state" where
  "start w = \<lparr>world = w, events = []\<rparr>"

definition sample_text :: jsstring where
  "sample_text = js (''  Billing Issue: a fee was charged '')"

definition sample_error :: js_error where
  "sample_error = FetchFailed (js ''fetch failed'')"

definition sample_query :: jsstring where
  "sample_query = js ''I was charged $50 fee yesterday and I don't know why''"

section \<open>Properties\<close>

subsection \<open>Strings\<close>

lemma split_first: "\<exists>rest. split sep s = takeWhile (\<lambda>c. c \<noteq> sep) s # rest"
proof (induction s)
  case Nil
  show ?case by simp
next
  case (Cons c cs)
  then obtain rest where "split sep cs = takeWhile (\<lambda>c. c \<noteq> sep) cs # rest" ..
  then show ?case by simp
qed

lemma categoryName_eq:
  "categoryName s = Inr (trim (takeWhile (\<lambda>c. c \<noteq> colon) s))"
proof -
  obtain rest where "split colon s = takeWhile (\<lambda>c. c \<noteq> colon) s # rest"
    using split_first by blast
  then show ?thesis by (simp add: categoryName_def)
qed

lemma drop_end: "xs = rev (dropWhile P (rev xs)) @ rev (takeWhile P (rev xs))"
  by (metis rev_append rev_rev_ident takeWhile_dropWhile_id)

lemma trim_tail:
  "dropWhile is_space s = trim s @ rev (takeWhile is_space (rev (dropWhile is_space s)))"
  unfolding trim_def by (rule drop_end)

lemma trim_decompose:
  "\<exists>lead trail. s = lead @ trim s @ trail \<and> list_all is_space lead \<and> list_all is_space trail"
proof -
  let ?lead = "takeWhile is_space s"
  let ?trail = "rev (takeWhile is_space (rev (dropWhile is_space s)))"
  have "s = ?lead @ dropWhile is_space s" by simp
  with trim_tail[of s] have "s = ?lead @ trim s @ ?trail" by simp
  moreover have "list_all is_space ?lead"
    unfolding list_all_iff by (blast dest: set_takeWhileD)
  moreover have "list_all is_space ?trail"
    unfolding list_all_iff set_rev by (blast dest: set_takeWhileD)
  ultimately show ?thesis by blast
qed

lemma trim_ends:
  "trim s = [] \<or> (\<not> is_space (hd (trim s)) \<and> \<not> is_space (last (trim s)))"
proof (cases "trim s = []")
  case True
  then show ?thesis by simp
next
  case False
  let ?d = "dropWhile is_space s"
  let ?e = "dropWhile is_space (rev ?d)"
  from False have e: "?e \<noteq> []" by (simp add: trim_def)
  then have "\<not> is_space (hd ?e)" by (rule hd_dropWhile)
  with e have l: "\<not> is_space (last (trim s))" by (simp add: trim_def last_rev)
  from False trim_tail[of s] have "hd ?d = hd (trim s)"
    by (metis hd_append2)
  moreover from False trim_tail[of s] have "?d \<noteq> []" by (metis append_is_Nil_conv)
  then have "\<not> is_space (hd ?d)" by (rule hd_dropWhile)
  ultimately show ?thesis using l by simp
qed

lemma trim_spaces:
  assumes "list_all is_space s"
  shows "trim s = []"
proof -
  from assms have d: "dropWhile is_space s = []" by (simp add: list_all_iff)
  show ?thesis unfolding trim_def d by simp
qed

lemma trim_sample_text: "trim sample_text = js ''Billing Issue: a fee was charged''"
  by (simp add: sample_text_def trim_def js_def is_space_def)

text \<open>
  C3. The category name is the text of \<open>selectedCategory\<close> before its first colon with
  the white space at both ends removed: that text is the name between a run of white
  space before and one after, and the name neither starts nor ends with white space. It
  is \<open>Billing Issue\<close> for \<open>Billing Issue: explanation text\<close>, and the whole trimmed string
  where there is no colon.
\<close>

theorem category_name_extraction:
  "(\<exists>name lead trail. categoryName s = Inr name
       \<and> takeWhile (\<lambda>c. c \<noteq> colon) s = lead @ name @ trail
       \<and> list_all is_space lead \<and> list_all is_space trail
       \<and> (name = [] \<or> (\<not> is_space (hd name) \<and> \<not> is_space (last name))))
   \<and> categoryName s = Inr (trim (takeWhile (\<lambda>c. c \<noteq> colon) s))
   \<and> categoryName (js ''Billing Issue: explanation text'') = Inr (js ''Billing Issue'')
   \<and> categoryName (js ''no colon present'') = Inr (trim (js ''no colon present''))
   \<and> trim (js ''no colon present'') = js ''no colon present''
   \<and> categoryName (js ''no colon present'') = Inr (js ''no colon present'')
   \<and> categoryName (js ''  Loan : x'') = Inr (js ''Loan'')
   \<and> categoryName (js ''\<newline> Card Services\<newline>: because'') = Inr (js ''Card Services'')
   \<and> categoryName (js '' no colon present  '') = Inr (js ''no colon present'')"
proof -
  have general: "\<exists>name lead trail. categoryName s = Inr name
       \<and> takeWhile (\<lambda>c. c \<noteq> colon) s = lead @ name @ trail
       \<and> list_all is_space lead \<and> list_all is_space trail
       \<and> (name = [] \<or> (\<not> is_space (hd name) \<and> \<not> is_space (last name)))"
    using trim_decompose[of "takeWhile (\<lambda>c. c \<noteq> colon) s"]
      trim_ends[of "takeWhile (\<lambda>c. c \<noteq> colon) s"]
    unfolding categoryName_eq by blast
  have examples:
    "categoryName (js ''Billing Issue: explanation text'') = Inr (js ''Billing Issue'')"
    "categoryName (js ''no colon present'') = Inr (trim (js ''no colon present''))"
    "trim (js ''no colon present'') = js ''no colon present''"
    "categoryName (js ''no colon present'') = Inr (js ''no colon present'')"
    "categoryName (js ''  Loan : x'') = Inr (js ''Loan'')"
    "categoryName (js ''\<newline> Card Services\<newline>: because'') = Inr (js ''Card Services'')"
    "categoryName (js '' no colon present  '') = Inr (js ''no colon present'')"
    by (simp_all add: categoryName_eq js_def colon_def trim_def is_space_def)
  from general examples categoryName_eq[of s] show ?thesis by (intro conjI)
qed

subsection \<open>One call of the service\<close>

lemma callTogetherAI_eq:
  "callTogetherAI svc p t m st =
     (reply_text (fst (svc (world st) (request_body p t m))),
      st\<lparr>world := snd (svc (world st) (request_body p t m)),
         events := events st
           @ [Fetch (request_body p t m) (fst (svc (world st) (request_body p t m)))]\<rparr>)"
  by (simp add: callTogetherAI_def fetch_def split: prod.splits)

lemma callTogetherAI_cases:
  assumes "callTogetherAI svc p t m st = (r, st')"
  obtains outcome where "r = reply_text outcome"
    and "events st' = events st @ [Fetch (request_body p t m) outcome]"
  using assms by (auto simp: callTogetherAI_eq)

lemma get_named_error: "get_named name v = Inl e \<Longrightarrow> e = TypeError"
  by (erule get_named.elims) simp_all

lemma get_index0_error: "get_index0 v = Inl e \<Longrightarrow> e = TypeError"
  by (erule get_index0.elims) simp_all

lemma call_trim_no_string: "\<forall>s. v \<noteq> Val (JStr s) \<Longrightarrow> call_trim v = Inl TypeError"
  by (cases v rule: call_trim.cases) simp_all

lemma message_content_error: "message_content data = Inl e \<Longrightarrow> e = TypeError"
  unfolding message_content_def try_bind_def
  by (auto split: sum.splits dest: get_named_error get_index0_error)

lemma generated_text_string:
  "message_content data = Inr (Val (JStr s)) \<Longrightarrow> generated_text data = Inr (trim s)"
  by (simp add: generated_text_def try_bind_def)

lemma generated_text_malformed:
  assumes "\<forall>s. message_content data \<noteq> Inr (Val (JStr s))"
  shows "generated_text data = Inl TypeError"
proof (cases "message_content data")
  case (Inl e)
  then show ?thesis
    by (simp add: generated_text_def try_bind_def message_content_error)
next
  case (Inr v)
  with assms have "\<forall>s. v \<noteq> Val (JStr s)" by simp
  with Inr show ?thesis
    by (simp add: generated_text_def try_bind_def call_trim_no_string)
qed

lemma message_content_completion: "message_content (completion text) = Inr (Val (JStr text))"
  by (simp add: message_content_def completion_def try_bind_def own_def js_def)

text \<open>
  The read does not check that \<^verbatim>\<open>choices\<close> is an array: an object with a member \<^verbatim>\<open>"0"\<close>
  serves as well.
\<close>

lemma message_content_object_choices:
  "message_content
     (JObj [(js ''choices'',
             JObj [(js ''0'', JObj [(js ''message'', JObj [(js ''content'', JStr text)])])])])
   = Inr (Val (JStr text))"
  by (simp add: message_content_def try_bind_def own_def js_def)

lemma reply_text_ok_reply: "reply_text (ok_reply text) = Inr (trim text)"
  by (simp add: ok_reply_def reply_text_def ok_def generated_text_string
      message_content_completion)

lemma reply_text_rejected: "reply_text (Inl error) = Inl error"
  by (simp add: reply_text_def)

text \<open>
  C6. \<^verbatim>\<open>callTogetherAI\<close> asks the service exactly once, whatever the outcome. It throws
  the error of a rejected \<^verbatim>\<open>fetch\<close>; on a status outside 200 to 299 it throws the error
  built from the status and the error body; it throws when the body cannot be read as
  JSON (an empty body); it throws a type error when the JSON has no string at
  \<^verbatim>\<open>choices[0].message.content\<close>. Otherwise it returns that string trimmed: the string
  is the result between a run of white space before and one after, and the result neither
  starts nor ends with white space.
\<close>

theorem completion_contract:
  assumes "svc (world st) (request_body prompt temp maxTokens) = (outcome, w')"
  shows
    "snd (callTogetherAI svc prompt temp maxTokens st) =
       st\<lparr>world := w',
          events := events st @ [Fetch (request_body prompt temp maxTokens) outcome]\<rparr>
     \<and> (\<forall>error. outcome = Inl error \<longrightarrow>
           fst (callTogetherAI svc prompt temp maxTokens st) = Inl error)
     \<and> (\<forall>response errorData. outcome = Inr response \<and> \<not> ok response
             \<and> body response = Inr errorData \<longrightarrow>
           fst (callTogetherAI svc prompt temp maxTokens st) =
             Inl (ApiError (status response) errorData))
     \<and> (\<forall>response error. outcome = Inr response \<and> body response = Inl error \<longrightarrow>
           fst (callTogetherAI svc prompt temp maxTokens st) = Inl error)
     \<and> (\<forall>response data. outcome = Inr response \<and> ok response \<and> body response = Inr data
             \<and> (\<forall>s. message_content data \<noteq> Inr (Val (JStr s))) \<longrightarrow>
           fst (callTogetherAI svc prompt temp maxTokens st) = Inl TypeError)
     \<and> (\<forall>response data s. outcome = Inr response \<and> ok response \<and> body response = Inr data
             \<and> message_content data = Inr (Val (JStr s)) \<longrightarrow>
           fst (callTogetherAI svc prompt temp maxTokens st) = Inr (trim s)
           \<and> (\<exists>lead trail. s = lead @ trim s @ trail
                 \<and> list_all is_space lead \<and> list_all is_space trail)
           \<and> (trim s = [] \<or> (\<not> is_space (hd (trim s)) \<and> \<not> is_space (last (trim s)))))"
  using assms trim_decompose trim_ends
  by (simp add: callTogetherAI_eq reply_text_def generated_text_string generated_text_malformed)

text \<open>
  The contract at concrete outcomes: a completion with white space around it, a rejected
  \<^verbatim>\<open>fetch\<close>, status 429 with an error body, status 200 with an empty body, and status 200
  with a JSON body that has no choices. Each call leaves exactly one event.
\<close>

theorem completion_contract_witness:
  "callTogetherAI (answers sample_text) sample_query (3 / 10) 150 (start ()) =
     (Inr (js ''Billing Issue: a fee was charged''),
      \<lparr>world = (),
        events = [Fetch (request_body sample_query (3 / 10) 150) (ok_reply sample_text)]\<rparr>)
   \<and> callTogetherAI (responds (Inl sample_error)) sample_query (3 / 10) 150 (start ()) =
     (Inl sample_error,
      \<lparr>world = (),
        events = [Fetch (request_body sample_query (3 / 10) 150) (Inl sample_error)]\<rparr>)
   \<and> fst (callTogetherAI (responds (Inr \<lparr>status = 429, body = Inr (JObj [])\<rparr>))
            sample_query (3 / 10) 150 (start ())) = Inl (ApiError 429 (JObj []))
   \<and> fst (callTogetherAI
            (responds (Inr \<lparr>status = 200,
                            body = Inl (BodyUnreadable (js ''Unexpected end of JSON input''))\<rparr>))
            sample_query (3 / 10) 150 (start ())) =
       Inl (BodyUnreadable (js ''Unexpected end of JSON input''))
   \<and> fst (callTogetherAI
            (responds (Inr \<lparr>status = 200, body = Inr (JObj [(js ''choices'', JArr [])])\<rparr>))
            sample_query (3 / 10) 150 (start ())) = Inl TypeError"
proof -
  let ?req = "request_body sample_query (3 / 10) 150"
  have a: "answers sample_text (world (start ())) ?req = (ok_reply sample_text, ())"
    by (simp add: answers_def responds_def)
  have b: "responds out (world (start ())) ?req = (out, ())" for out
    by (simp add: responds_def)
  have m: "message_content (JObj [(js ''choices'', JArr [])]) = Inl TypeError"
    by (simp add: message_content_def try_bind_def own_def js_def)
  note cc = completion_contract[where st = "start ()" and prompt = sample_query
      and temp = "3 / 10" and maxTokens = 150]
  note c1 = cc[where svc = "answers sample_text", OF a, unfolded ok_reply_def]
  note c2 = cc[where svc = "responds (Inl sample_error)", OF b]
  note c3 = cc[where svc = "responds (Inr \<lparr>status = 429, body = Inr (JObj [])\<rparr>)", OF b]
  note c4 = cc[where svc = "responds (Inr \<lparr>status = 200,
    body = Inl (BodyUnreadable (js ''Unexpected end of JSON input''))\<rparr>)", OF b]
  note c5 = cc[where svc = "responds (Inr \<lparr>status = 200,
    body = Inr (JObj [(js ''choices'', JArr [])])\<rparr>)", OF b]
  have "fst (callTogetherAI (answers sample_text) sample_query (3 / 10) 150 (start ())) =
      Inr (js ''Billing Issue: a fee was charged'')"
    using c1 by (simp add: ok_def message_content_completion trim_sample_text)
  moreover have "snd (callTogetherAI (answers sample_text) sample_query (3 / 10) 150 (start ())) =
      \<lparr>world = (), events = [Fetch ?req (ok_reply sample_text)]\<rparr>"
    using c1 by (simp add: start_def ok_reply_def)
  moreover have "fst (callTogetherAI (responds (Inl sample_error)) sample_query (3 / 10) 150
      (start ())) = Inl sample_error"
    using c2 by simp
  moreover have "snd (callTogetherAI (responds (Inl sample_error)) sample_query (3 / 10) 150
      (start ())) = \<lparr>world = (), events = [Fetch ?req (Inl sample_error)]\<rparr>"
    using c2 by (simp add: start_def)
  moreover have "fst (callTogetherAI (responds (Inr \<lparr>status = 429, body = Inr (JObj [])\<rparr>))
      sample_query (3 / 10) 150 (start ())) = Inl (ApiError 429 (JObj []))"
    using c3 by (simp add: ok_def)
  moreover have "fst (callTogetherAI
      (responds (Inr \<lparr>status = 200,
                      body = Inl (BodyUnreadable (js ''Unexpected end of JSON input''))\<rparr>))
      sample_query (3 / 10) 150 (start ())) =
        Inl (BodyUnreadable (js ''Unexpected end of JSON input''))"
    using c4 by simp
  moreover have "fst (callTogetherAI
      (responds (Inr \<lparr>status = 200, body = Inr (JObj [(js ''choices'', JArr [])])\<rparr>))
      sample_query (3 / 10) 150 (start ())) = Inl TypeError"
    using c5 by (simp add: ok_def m)
  ultimately show ?thesis by (simp add: prod_eq_iff)
qed

subsection \<open>One run of the chain\<close>

lemma await_sync: "await (sync (Inr x)) k st = k x st"
  by (simp add: await_def sync_def)

text \<open>The events of every run follow the chain, and its result is read off them.\<close>

lemma run_trace:
  "\<exists>es. events (snd (runPromptChain svc q st)) = events st @ es
      \<and> follows_chain q [] es
      \<and> fst (runPromptChain svc q st) = chain_result [] es
      \<and> es \<noteq> [] \<and> length es \<le> 5"
  unfolding runPromptChain_def await_def Let_def returns_def sync_def
  by (auto simp: categoryName_eq split: prod.splits sum.splits elim!: callTogetherAI_cases)

lemma follows_chain_failure:
  "follows_chain q ctx es \<Longrightarrow> k < length es \<Longrightarrow> es ! k = Fetch req outcome \<Longrightarrow>
   reply_text outcome = Inl error \<Longrightarrow> length es = k + 1 \<and> chain_result ctx es = Inl error"
proof (induction q ctx es arbitrary: k rule: follows_chain.induct)
  case (1 query ctx)
  then show ?case by simp
next
  case (2 query ctx uu es)
  then show ?case by simp
next
  case (3 query ctx r out es)
  show ?case
  proof (cases k)
    case 0
    with 3 show ?thesis by simp
  next
    case (Suc k')
    with 3 show ?thesis by (auto split: sum.splits)
  qed
qed

lemma follows_chain_nth:
  "follows_chain q ctx es \<Longrightarrow> j < length es \<Longrightarrow>
   \<exists>r out c. es ! j = Fetch r out \<and> length c = length ctx + j \<and> stage_request q c = Some r"
proof (induction q ctx es arbitrary: j rule: follows_chain.induct)
  case (1 query ctx)
  then show ?case by simp
next
  case (2 query ctx uu es)
  then show ?case by simp
next
  case (3 query ctx r out es)
  show ?case
  proof (cases j)
    case 0
    with 3 show ?thesis by auto
  next
    case (Suc j')
    with 3 show ?thesis by (fastforce split: sum.splits)
  qed
qed

lemma stage_request_temperature:
  "stage_request q c = Some r \<Longrightarrow> temperature r = (if length c = 4 then 5 / 10 else 3 / 10)"
  by (induction q c rule: stage_request.induct) (auto simp: request_body_def split: sum.splits)

text \<open>Concrete runs against the mocked services.\<close>

lemmas run_simps = runPromptChain_def await_def returns_def sync_def callTogetherAI_eq
  reply_text_ok_reply reply_text_rejected categoryName_eq start_def

lemma run_answers:
  "runPromptChain (answers t) q (start w) =
    (Inr [trim t, trim t, trim t, trim t, trim t],
     \<lparr>world = w, events =
       [Fetch (request_body (prompt1 q) (3 / 10) 150) (ok_reply t),
        Fetch (request_body (prompt2 (trim t)) (3 / 10) 250) (ok_reply t),
        Fetch (request_body (prompt3 (trim t) q (trim t)) (3 / 10) 150) (ok_reply t),
        Fetch (request_body (prompt4 (trim (takeWhile (\<lambda>c. c \<noteq> colon) (trim t))) q)
                (3 / 10) 200) (ok_reply t),
        Fetch (request_body (prompt5 (trim t) (trim t) (trim t) q) (5 / 10) 300)
              (ok_reply t)]\<rparr>)"
  by (simp add: run_simps answers_def responds_def)

lemma run_fails_on_2:
  "runPromptChain (fails_on 2 e t) q (start 0) =
    (Inl e,
     \<lparr>world = 3, events =
       [Fetch (request_body (prompt1 q) (3 / 10) 150) (ok_reply t),
        Fetch (request_body (prompt2 (trim t)) (3 / 10) 250) (ok_reply t),
        Fetch (request_body (prompt3 (trim t) q (trim t)) (3 / 10) 150) (Inl e)]\<rparr>)"
  by (simp add: run_simps fails_on_def)

lemma run_fails_on_5:
  "runPromptChain (fails_on 5 e t) q (start 0) =
    (Inr [trim t, trim t, trim t, trim t, trim t],
     \<lparr>world = 5, events =
       [Fetch (request_body (prompt1 q) (3 / 10) 150) (ok_reply t),
        Fetch (request_body (prompt2 (trim t)) (3 / 10) 250) (ok_reply t),
        Fetch (request_body (prompt3 (trim t) q (trim t)) (3 / 10) 150) (ok_reply t),
        Fetch (request_body (prompt4 (trim (takeWhile (\<lambda>c. c \<noteq> colon) (trim t))) q)
                (3 / 10) 200) (ok_reply t),
        Fetch (request_body (prompt5 (trim t) (trim t) (trim t) q) (5 / 10) 300)
              (ok_reply t)]\<rparr>)"
  by (simp add: run_simps fails_on_def)

lemma run_fails_on_5_next:
  "runPromptChain (fails_on 5 e t) q \<lparr>world = 5, events = es\<rparr> =
     (Inl e, \<lparr>world = 6, events = es @ [Fetch (request_body (prompt1 q) (3 / 10) 150) (Inl e)]\<rparr>)"
  by (simp add: run_simps fails_on_def)

text \<open>
  C1. A run either fails or returns exactly five texts, in the order intent, categories,
  selected category, details, response: the \<open>k\<close>-th entry is the text of the reply to the
  prompt of stage \<open>k\<close>, and the five requests went out in that order.
\<close>

theorem pipeline_result_shape:
  "(\<exists>error. fst (runPromptChain svc query st) = Inl error)
   \<or> (\<exists>intent categories selectedCategory name details response o1 o2 o3 o4 o5.
        fst (runPromptChain svc query st) =
          Inr [intent, categories, selectedCategory, details, response]
      \<and> categoryName selectedCategory = Inr name
      \<and> events (snd (runPromptChain svc query st)) = events st @
          [Fetch (request_body (prompt1 query) (3 / 10) 150) o1,
           Fetch (request_body (prompt2 intent) (3 / 10) 250) o2,
           Fetch (request_body (prompt3 intent query categories) (3 / 10) 150) o3,
           Fetch (request_body (prompt4 name query) (3 / 10) 200) o4,
           Fetch (request_body (prompt5 selectedCategory intent details query) (5 / 10) 300) o5]
      \<and> reply_text o1 = Inr intent \<and> reply_text o2 = Inr categories
      \<and> reply_text o3 = Inr selectedCategory \<and> reply_text o4 = Inr details
      \<and> reply_text o5 = Inr response)"
  unfolding runPromptChain_def await_def Let_def returns_def sync_def
  by (auto simp: categoryName_eq split: prod.splits sum.splits elim!: callTogetherAI_cases)

text \<open>A run that succeeds: the service answers every prompt with the same text.\<close>

theorem pipeline_result_shape_witness:
  "\<exists>results. fst (runPromptChain (answers sample_text) sample_query (start ())) = Inr results
     \<and> length results = 5
     \<and> results ! 0 = js ''Billing Issue: a fee was charged''"
proof -
  have run: "fst (runPromptChain (answers sample_text) sample_query (start ())) =
      Inr (replicate 5 (js ''Billing Issue: a fee was charged''))"
    by (simp add: run_answers trim_sample_text numeral_eq_Suc)
  from pipeline_result_shape[of "answers sample_text" sample_query "start ()"]
  show ?thesis
  proof (elim disjE exE conjE)
    fix error
    assume "fst (runPromptChain (answers sample_text) sample_query (start ())) = Inl error"
    with run show ?thesis by simp
  next
    fix intent categories selectedCategory details response
    assume "fst (runPromptChain (answers sample_text) sample_query (start ())) =
      Inr [intent, categories, selectedCategory, details, response]"
    with run show ?thesis by (simp add: numeral_eq_Suc)
  qed
qed

text \<open>
  C2. When the call of some stage fails, that call is the last event of the run: no later
  stage is invoked and no stage is called again (the events follow the chain, one request
  per stage). The run returns no list, only the error of the failed call. With \<open>k = 2\<close>:
  after a failure at stage 3 the run has three events, none for stage 4 or 5.
\<close>

theorem failure_aborts_chain:
  assumes "events (snd (runPromptChain svc query st)) = events st @ es"
    and "k < length es" and "es ! k = Fetch req outcome" and "reply_text outcome = Inl error"
  shows "fst (runPromptChain svc query st) = Inl error \<and> length es = k + 1
         \<and> follows_chain query [] es"
proof -
  obtain es' where es': "events (snd (runPromptChain svc query st)) = events st @ es'"
    "follows_chain query [] es'" "fst (runPromptChain svc query st) = chain_result [] es'"
    using run_trace by blast
  with assms(1) have "es' = es" by simp
  with es' assms follows_chain_failure[of query "[]" es k req outcome error]
  show ?thesis by simp
qed

text \<open>The service rejects the third call: the run ends there with that error.\<close>

theorem failure_aborts_chain_witness:
  "runPromptChain (fails_on 2 sample_error sample_text) sample_query (start 0) =
    (Inl sample_error,
     \<lparr>world = 3, events =
       [Fetch (request_body (prompt1 sample_query) (3 / 10) 150) (ok_reply sample_text),
        Fetch (request_body (prompt2 (trim sample_text)) (3 / 10) 250) (ok_reply sample_text),
        Fetch (request_body (prompt3 (trim sample_text) sample_query (trim sample_text))
                (3 / 10) 150) (Inl sample_error)]\<rparr>)"
proof -
  let ?run = "runPromptChain (fails_on 2 sample_error sample_text) sample_query (start 0)"
  let ?es = "[Fetch (request_body (prompt1 sample_query) (3 / 10) 150) (ok_reply sample_text),
        Fetch (request_body (prompt2 (trim sample_text)) (3 / 10) 250) (ok_reply sample_text),
        Fetch (request_body (prompt3 (trim sample_text) sample_query (trim sample_text))
                (3 / 10) 150) (Inl sample_error)]"
  have st: "snd ?run = \<lparr>world = 3, events = ?es\<rparr>"
    by (simp add: run_fails_on_2)
  then have h1: "events (snd ?run) = events (start 0) @ ?es"
    by (simp add: start_def)
  have h2: "2 < length ?es" by simp
  have h3: "?es ! 2 = Fetch (request_body (prompt3 (trim sample_text) sample_query
      (trim sample_text)) (3 / 10) 150) (Inl sample_error)" by simp
  have h4: "reply_text (Inl sample_error) = Inl sample_error"
    by (rule reply_text_rejected)
  from failure_aborts_chain[OF h1 h2 h3 h4] have "fst ?run = Inl sample_error" by simp
  with st show ?thesis by (simp add: prod_eq_iff)
qed

subsection \<open>What the prompts are built from\<close>

lemma prompt1_embeds: "sublist query (prompt1 query)"
  unfolding prompt1_def by (rule sublist_appendI)

lemma prompt2_embeds: "sublist intent (prompt2 intent)"
  unfolding prompt2_def by (rule sublist_appendI)

lemma prompt3_embeds:
  "sublist intent (prompt3 intent query categories)"
  "sublist query (prompt3 intent query categories)"
  "sublist categories (prompt3 intent query categories)"
  unfolding prompt3_def sublist_def
    apply (rule exI[of _ "js _"], rule exI, rule refl)
   apply (rule exI[of _ "js _ @ intent @ js _"], rule exI[of _ "js _ @ categories @ js _"],
      simp)
  apply (rule exI[of _ "js _ @ intent @ js _ @ query @ js _"], rule exI[of _ "js _"], simp)
  done

lemma prompt4_embeds:
  "sublist name (prompt4 name query)"
  "sublist query (prompt4 name query)"
  unfolding prompt4_def sublist_def
   apply (rule exI[of _ "js _"], rule exI, rule refl)
  apply (rule exI[of _ "js _ @ name @ js _"], rule exI[of _ "js _"], simp)
  done

lemma prompt5_embeds:
  "sublist selectedCategory (prompt5 selectedCategory intent details query)"
  "sublist intent (prompt5 selectedCategory intent details query)"
  "sublist details (prompt5 selectedCategory intent details query)"
  "sublist query (prompt5 selectedCategory intent details query)"
  unfolding prompt5_def sublist_def
     apply (rule exI[of _ "js _"], rule exI, rule refl)
    apply (rule exI[of _ "js _ @ selectedCategory @ js _"],
      rule exI[of _ "js _ @ details @ js _ @ query @ js _"], simp)
   apply (rule exI[of _ "js _ @ selectedCategory @ js _ @ intent @ js _"],
      rule exI[of _ "js _ @ query @ js _"], simp)
  apply (rule exI[of _ "js _ @ selectedCategory @ js _ @ intent @ js _ @ details @ js _"],
      rule exI[of _ "js _"], simp)
  done

lemma stage_request_embeds:
  "stage_request q ctx = Some req \<Longrightarrow>
   list_all (\<lambda>text. sublist text (content req)) (required_inputs q ctx)"
  by (induction q ctx rule: stage_request.induct)
     (auto simp: request_body_def categoryName_eq prompt1_embeds prompt2_embeds prompt3_embeds
        prompt4_embeds prompt5_embeds)

lemma follows_chain_embeds: "follows_chain q ctx es \<Longrightarrow> embeds_inputs q ctx es"
  by (induction q ctx es rule: follows_chain.induct)
     (auto simp: stage_request_embeds split: sum.splits)

text \<open>
  C4. In every run, the prompt sent at each stage contains verbatim each input that the
  stage declares: the outputs of the earlier stages it names, and the query. In
  particular the prompt of stage 5 contains the selected category, the intent, the details
  and the query, and the prompt of stage 3 the intent, the query and the categories.
\<close>

theorem prompts_embed_inputs:
  "(\<exists>es. events (snd (runPromptChain svc query st)) = events st @ es
        \<and> es \<noteq> [] \<and> embeds_inputs query [] es)
   \<and> sublist selectedCategory (prompt5 selectedCategory intent details query)
   \<and> sublist intent (prompt5 selectedCategory intent details query)
   \<and> sublist details (prompt5 selectedCategory intent details query)
   \<and> sublist query (prompt5 selectedCategory intent details query)
   \<and> sublist intent (prompt3 intent query categories)
   \<and> sublist query (prompt3 intent query categories)
   \<and> sublist categories (prompt3 intent query categories)"
  using run_trace[of svc query st]
  by (auto simp: prompt3_embeds prompt5_embeds dest: follows_chain_embeds)

text \<open>A run of five stages: each of the five prompts contains its inputs.\<close>

theorem prompts_embed_inputs_witness:
  "\<exists>es. events (snd (runPromptChain (answers sample_text) sample_query (start ()))) = es
     \<and> length es = 5 \<and> embeds_inputs sample_query [] es"
proof -
  have len: "length (events (snd (runPromptChain (answers sample_text) sample_query
      (start ())))) = 5"
    by (simp add: run_answers)
  from prompts_embed_inputs[of "answers sample_text" sample_query "start ()"]
  obtain es where "events (snd (runPromptChain (answers sample_text) sample_query (start ())))
      = events (start ()) @ es" and "embeds_inputs sample_query [] es"
    by blast
  with len show ?thesis by (simp add: start_def)
qed

text \<open>
  C5. The events of every run follow the chain: the request of stage \<open>k\<close> is built from
  the query and from exactly the texts that stages 1 to \<open>k - 1\<close> of this run returned, and
  it is sent only if the call before it returned a text. The state the run starts from,
  which holds what earlier runs did, is no input of any request.
\<close>

theorem stages_follow_chain:
  "\<exists>es. events (snd (runPromptChain svc query st)) = events st @ es
     \<and> es \<noteq> [] \<and> length es \<le> 5 \<and> follows_chain query [] es"
  using run_trace[of svc query st] by blast

text \<open>A run of five stages, and one cut short at stage 3.\<close>

theorem stages_follow_chain_witness:
  "(\<exists>es. events (snd (runPromptChain (answers sample_text) sample_query (start ()))) = es
      \<and> length es = 5 \<and> follows_chain sample_query [] es)
   \<and> (\<exists>es. events (snd (runPromptChain (fails_on 2 sample_error sample_text) sample_query
                (start 0))) = es
      \<and> length es = 3 \<and> follows_chain sample_query [] es)"
proof -
  have len5: "length (events (snd (runPromptChain (answers sample_text) sample_query
      (start ())))) = 5"
    by (simp add: run_answers)
  have len3: "length (events (snd (runPromptChain (fails_on 2 sample_error sample_text)
      sample_query (start 0)))) = 3"
    by (simp add: run_fails_on_2)
  from stages_follow_chain[of "answers sample_text" sample_query "start ()"]
  obtain es where "events (snd (runPromptChain (answers sample_text) sample_query (start ())))
      = events (start ()) @ es" and "follows_chain sample_query [] es"
    by blast
  with len5 have a: "\<exists>es. events (snd (runPromptChain (answers sample_text) sample_query
      (start ()))) = es \<and> length es = 5 \<and> follows_chain sample_query [] es"
    by (simp add: start_def)
  from stages_follow_chain[of "fails_on 2 sample_error sample_text" sample_query "start 0"]
  obtain es where "events (snd (runPromptChain (fails_on 2 sample_error sample_text)
      sample_query (start 0))) = events (start (0::nat)) @ es"
    and "follows_chain sample_query [] es"
    by blast
  with len3 have b: "\<exists>es. events (snd (runPromptChain (fails_on 2 sample_error sample_text)
      sample_query (start 0))) = es \<and> length es = 3 \<and> follows_chain sample_query [] es"
    by (simp add: start_def)
  from a b show ?thesis by (rule conjI)
qed

text \<open>
  C9. In every run that reaches stage 5, the temperature of its request is strictly higher
  than the temperature of the request of each of the stages 1 to 4.
\<close>

theorem response_temperature_highest:
  assumes "events (snd (runPromptChain svc query st)) = events st @ es"
    and "4 < length es" and "j < 4" and "es ! j = Fetch rj oj" and "es ! 4 = Fetch r5 o5"
  shows "temperature rj < temperature r5"
proof -
  obtain es' where es': "events (snd (runPromptChain svc query st)) = events st @ es'"
    "follows_chain query [] es'"
    using run_trace by blast
  with assms(1) have fc: "follows_chain query [] es" by simp
  from follows_chain_nth[OF fc, of j] assms
  obtain cj where "length cj = j" "stage_request query cj = Some rj"
    by auto
  moreover from follows_chain_nth[OF fc, of 4] assms
  obtain c5 where "length c5 = 4" "stage_request query c5 = Some r5"
    by auto
  ultimately show ?thesis using assms(3) by (simp add: stage_request_temperature)
qed

text \<open>The five requests of a full run: 0.3 four times, then 0.5.\<close>

theorem response_temperature_highest_witness:
  "map (\<lambda>e. case e of Fetch r _ \<Rightarrow> temperature r | Sleep _ \<Rightarrow> 0)
     (events (snd (runPromptChain (answers sample_text) sample_query (start ()))))
     = [3 / 10, 3 / 10, 3 / 10, 3 / 10, 5 / 10]
   \<and> temperature (request_body (prompt1 sample_query) (3 / 10) 150)
       < temperature (request_body (prompt5 (trim sample_text) (trim sample_text)
           (trim sample_text) sample_query) (5 / 10) 300)"
proof -
  let ?t = "trim sample_text"
  let ?es = "[Fetch (request_body (prompt1 sample_query) (3 / 10) 150) (ok_reply sample_text),
        Fetch (request_body (prompt2 ?t) (3 / 10) 250) (ok_reply sample_text),
        Fetch (request_body (prompt3 ?t sample_query ?t) (3 / 10) 150) (ok_reply sample_text),
        Fetch (request_body (prompt4 (trim (takeWhile (\<lambda>c. c \<noteq> colon) ?t)) sample_query)
                (3 / 10) 200) (ok_reply sample_text),
        Fetch (request_body (prompt5 ?t ?t ?t sample_query) (5 / 10) 300)
              (ok_reply sample_text)]"
  have ev: "events (snd (runPromptChain (answers sample_text) sample_query (start ()))) = ?es"
    by (simp add: run_answers)
  then have h1: "events (snd (runPromptChain (answers sample_text) sample_query (start ())))
      = events (start ()) @ ?es"
    by (simp add: start_def)
  have h2: "4 < length ?es" by simp
  have h3: "(0::nat) < 4" by simp
  have h4: "?es ! 0 = Fetch (request_body (prompt1 sample_query) (3 / 10) 150)
      (ok_reply sample_text)" by simp
  have h5: "?es ! 4 = Fetch (request_body (prompt5 ?t ?t ?t sample_query) (5 / 10) 300)
      (ok_reply sample_text)" by simp
  have temps: "map (\<lambda>e. case e of Fetch r _ \<Rightarrow> temperature r | Sleep _ \<Rightarrow> 0)
     (events (snd (runPromptChain (answers sample_text) sample_query (start ()))))
     = [3 / 10, 3 / 10, 3 / 10, 3 / 10, 5 / 10]"
    unfolding ev by (simp add: request_body_def)
  from temps response_temperature_highest[OF h1 h2 h3 h4 h5] show ?thesis by (rule conjI)
qed

subsection \<open>Deterministic services\<close>






subsection \<open>Empty generated text\<close>

text \<open>
  C10. A success response whose message content is empty or only white space makes
  \<^verbatim>\<open>callTogetherAI\<close> return the empty string, not fail; and when the service answers every
  call like this, the run succeeds with five empty strings.
\<close>

theorem empty_content_is_success:
  "(svc (world st) (request_body prompt temp maxTokens) = (Inr response, w')
      \<and> ok response \<and> body response = Inr data
      \<and> message_content data = Inr (Val (JStr s)) \<and> list_all is_space s \<longrightarrow>
    fst (callTogetherAI svc prompt temp maxTokens st) = Inr [])
   \<and> ((\<forall>w r. \<exists>response data s. fst (svc' w r) = Inr response
          \<and> ok response \<and> body response = Inr data
          \<and> message_content data = Inr (Val (JStr s)) \<and> list_all is_space s) \<longrightarrow>
       fst (runPromptChain svc' query st) = Inr [[], [], [], [], []])"
proof (intro conjI impI)
  assume "svc (world st) (request_body prompt temp maxTokens) = (Inr response, w')
      \<and> ok response \<and> body response = Inr data
      \<and> message_content data = Inr (Val (JStr s)) \<and> list_all is_space s"
  then show "fst (callTogetherAI svc prompt temp maxTokens st) = Inr []"
    by (simp add: callTogetherAI_eq reply_text_def generated_text_string trim_spaces)
next
  assume a: "\<forall>w r. \<exists>response data s. fst (svc' w r) = Inr response
          \<and> ok response \<and> body response = Inr data
          \<and> message_content data = Inr (Val (JStr s)) \<and> list_all is_space s"
  have call: "fst (callTogetherAI svc' p t m x) = Inr []" for p t m x
  proof -
    from a obtain response data s
      where "fst (svc' (world x) (request_body p t m)) = Inr response"
        "ok response" "body response = Inr data" "message_content data = Inr (Val (JStr s))"
        "list_all is_space s" by blast
    then show ?thesis
      by (simp add: callTogetherAI_eq reply_text_def generated_text_string trim_spaces)
  qed
  have step: "await (callTogetherAI svc' p t m) k x = k [] (snd (callTogetherAI svc' p t m x))"
    for p t m k x
    using call[of p t m x] by (cases "callTogetherAI svc' p t m x") (simp add: await_def)
  show "fst (runPromptChain svc' query st) = Inr [[], [], [], [], []]"
    by (simp add: runPromptChain_def step returns_def categoryName_eq await_sync)
qed

text \<open>The service answers every call with a completion of three spaces.\<close>

theorem empty_content_is_success_witness:
  "fst (callTogetherAI (answers (js ''   '')) sample_query (3 / 10) 150 (start ())) = Inr []
   \<and> fst (runPromptChain (answers (js ''   '')) sample_query (start ()))
       = Inr [[], [], [], [], []]"
proof -
  let ?resp = "\<lparr>status = 200, body = Inr (completion (js ''   ''))\<rparr>"
  have sp: "list_all is_space (js ''   '')"
    by (simp add: js_def is_space_def)
  have one: "answers (js ''   '') (world (start ())) (request_body sample_query (3 / 10) 150)
      = (Inr ?resp, ())
    \<and> ok ?resp \<and> body ?resp = Inr (completion (js ''   ''))
    \<and> message_content (completion (js ''   '')) = Inr (Val (JStr (js ''   '')))
    \<and> list_all is_space (js ''   '')"
    by (simp add: answers_def responds_def ok_reply_def ok_def message_content_completion sp)
  have all: "\<forall>w r. \<exists>response data s. fst (answers (js ''   '') w r) = Inr response
          \<and> ok response \<and> body response = Inr data
          \<and> message_content data = Inr (Val (JStr s)) \<and> list_all is_space s"
    by (intro allI exI[of _ ?resp] exI[of _ "completion (js ''   '')"] exI[of _ "js ''   ''"])
       (simp add: answers_def responds_def ok_reply_def ok_def message_content_completion sp)
  note inst = empty_content_is_success[where svc = "answers (js ''   '')" and st = "start ()"
      and prompt = sample_query and temp = "3 / 10" and maxTokens = 150 and response = ?resp
      and w' = "()" and data = "completion (js ''   '')" and s = "js ''   ''"
      and svc' = "answers (js ''   '')" and query = sample_query]
  from inst one all show ?thesis by blast
qed

subsection \<open>The batch\<close>

lemma for_loop_success:
  assumes "i < length queries" and "runPromptChain svc (queries ! i) st = (Inr results, st')"
  shows "for_loop svc queries i st =
           for_loop svc queries (i + 1) (if i < length queries - 1 then sleep 2000 st' else st')"
  using assms by (subst for_loop.simps) simp

lemma for_loop_failure:
  assumes "i < length queries" and "runPromptChain svc (queries ! i) st = (Inl error, st')"
  shows "for_loop svc queries i st = (Inl error, st')"
  using assms by (subst for_loop.simps) simp

lemma length_testQueries: "length testQueries = 5"
  by (simp add: testQueries_def)

text \<open>From the state in which it comes to iteration \<open>i\<close>, the loop goes on as from there.\<close>

lemma at_iteration_loop:
  "at_iteration svc queries st0 i = Some st \<Longrightarrow>
   for_loop svc queries 0 st0 = for_loop svc queries i st"
proof (induction i arbitrary: st)
  case 0
  then show ?case by simp
next
  case (Suc i)
  from Suc.prems obtain s where s: "at_iteration svc queries st0 i = Some s"
    by (auto split: option.splits)
  with Suc.prems have i: "i < length queries" by (auto split: if_splits)
  from Suc.prems s i obtain results s' where
    run: "runPromptChain svc (queries ! i) s = (Inr results, s')"
    and st: "st = (if i < length queries - 1 then sleep 2000 s' else s')"
    by (auto split: prod.splits sum.splits)
  from Suc.IH[OF s] have "for_loop svc queries 0 st0 = for_loop svc queries i s" .
  also from for_loop_success[OF i run] st have "\<dots> = for_loop svc queries (Suc i) st" by simp
  finally show ?case .
qed

text \<open>A loop that ends with an error ends in the state in which a run it came to failed.\<close>

lemma for_loop_failed_at:
  "for_loop svc queries i st = (Inl error, st') \<Longrightarrow>
   at_iteration svc queries st0 i = Some st \<Longrightarrow>
   \<exists>j st_j. j < length queries \<and> at_iteration svc queries st0 j = Some st_j
      \<and> runPromptChain svc (queries ! j) st_j = (Inl error, st')"
proof (induction svc queries i st rule: for_loop.induct)
  case (1 svc queries i st)
  show ?case
  proof (cases "i < length queries")
    case False
    with 1(2) show ?thesis by (subst (asm) for_loop.simps) simp
  next
    case True
    show ?thesis
    proof (cases "runPromptChain svc (queries ! i) st")
      case (Pair r s)
      show ?thesis
      proof (cases r)
        case (Inl e)
        with Pair True 1(2) have "e = error" "s = st'"
          by (subst (asm) for_loop.simps, simp)+
        with Pair Inl True 1(3) show ?thesis by auto
      next
        case (Inr results)
        let ?next = "if i < length queries - 1 then sleep 2000 s else s"
        from Inr Pair True 1(2)
        have loop: "for_loop svc queries (i + 1) ?next = (Inl error, st')"
          by (subst (asm) for_loop.simps) simp
        from 1(3) True Pair Inr have "at_iteration svc queries st0 (i + 1) = Some ?next"
          by simp
        from 1(1)[OF True Pair[symmetric] Inr loop this] show ?thesis .
      qed
    qed
  qed
qed

text \<open>What \<^verbatim>\<open>main\<close> makes of the loop, and what it does without a key.\<close>

lemma main_reports:
  assumes "TOGETHER_API_KEY env \<noteq> placeholder_key"
  shows "main svc env st =
     (case for_loop svc testQueries 0 st of
        (Inl error, st') \<Rightarrow> (Troubleshooting error, st')
      | (Inr _, st') \<Rightarrow> (AllCompleted, st'))"
  using assms by (simp add: main_def)

lemma main_without_key: "main svc None st = (KeyMissing, st)"
  by (simp add: main_def TOGETHER_API_KEY_def)

text \<open>
  C8. With a key set, when the batch of \<^verbatim>\<open>main\<close> comes to the query at index \<open>i\<close> and the
  run on it fails, \<^verbatim>\<open>main\<close> ends at once: it reports that error from its single \<^verbatim>\<open>catch\<close>
  and returns in the very state the failed run left, so nothing is sent and no pause is
  made for any later query. Conversely, whenever \<^verbatim>\<open>main\<close> reports an error, it ends in
  the state in which a run the batch came to failed with that error.
\<close>

theorem batch_abort:
  assumes "TOGETHER_API_KEY env \<noteq> placeholder_key"
  shows
    "(\<forall>i st error st'. i < length testQueries
          \<and> at_iteration svc testQueries st0 i = Some st
          \<and> runPromptChain svc (testQueries ! i) st = (Inl error, st') \<longrightarrow>
        main svc env st0 = (Troubleshooting error, st'))
     \<and> (\<forall>error st'. main svc env st0 = (Troubleshooting error, st') \<longrightarrow>
          (\<exists>i st. i < length testQueries
             \<and> at_iteration svc testQueries st0 i = Some st
             \<and> runPromptChain svc (testQueries ! i) st = (Inl error, st')))"
proof (intro conjI allI impI)
  fix i st error st'
  assume a: "i < length testQueries \<and> at_iteration svc testQueries st0 i = Some st
      \<and> runPromptChain svc (testQueries ! i) st = (Inl error, st')"
  then have "for_loop svc testQueries 0 st0 = for_loop svc testQueries i st"
    by (simp add: at_iteration_loop)
  also from a have "\<dots> = (Inl error, st')" by (simp add: for_loop_failure)
  finally show "main svc env st0 = (Troubleshooting error, st')"
    using assms by (simp add: main_def)
next
  fix error st'
  assume "main svc env st0 = (Troubleshooting error, st')"
  with assms have "for_loop svc testQueries 0 st0 = (Inl error, st')"
    by (auto simp: main_def split: prod.splits sum.splits)
  from for_loop_failed_at[OF this, of st0]
  show "\<exists>i st. i < length testQueries \<and> at_iteration svc testQueries st0 i = Some st
      \<and> runPromptChain svc (testQueries ! i) st = (Inl error, st')"
    by simp
qed

text \<open>
  The service rejects the sixth call, the first of the second query: \<^verbatim>\<open>main\<close> ends with
  the five requests of the first query, the pause, the rejected request, and nothing else;
  the third, fourth and fifth queries are never started.
\<close>

theorem batch_abort_witness:
  "main (fails_on 5 sample_error sample_text) (Some (js ''key'')) (start 0) =
    (Troubleshooting sample_error,
     \<lparr>world = 6, events =
       [Fetch (request_body (prompt1 (testQueries ! 0)) (3 / 10) 150) (ok_reply sample_text),
        Fetch (request_body (prompt2 (trim sample_text)) (3 / 10) 250) (ok_reply sample_text),
        Fetch (request_body (prompt3 (trim sample_text) (testQueries ! 0) (trim sample_text))
                (3 / 10) 150) (ok_reply sample_text),
        Fetch (request_body
                (prompt4 (trim (takeWhile (\<lambda>c. c \<noteq> colon) (trim sample_text)))
                   (testQueries ! 0)) (3 / 10) 200) (ok_reply sample_text),
        Fetch (request_body (prompt5 (trim sample_text) (trim sample_text) (trim sample_text)
                   (testQueries ! 0)) (5 / 10) 300) (ok_reply sample_text),
        Sleep 2000,
        Fetch (request_body (prompt1 (testQueries ! 1)) (3 / 10) 150) (Inl sample_error)]\<rparr>)"
proof -
  let ?svc = "fails_on 5 sample_error sample_text"
  let ?es = "[Fetch (request_body (prompt1 (testQueries ! 0)) (3 / 10) 150) (ok_reply sample_text),
        Fetch (request_body (prompt2 (trim sample_text)) (3 / 10) 250) (ok_reply sample_text),
        Fetch (request_body (prompt3 (trim sample_text) (testQueries ! 0) (trim sample_text))
                (3 / 10) 150) (ok_reply sample_text),
        Fetch (request_body
                (prompt4 (trim (takeWhile (\<lambda>c. c \<noteq> colon) (trim sample_text)))
                   (testQueries ! 0)) (3 / 10) 200) (ok_reply sample_text),
        Fetch (request_body (prompt5 (trim sample_text) (trim sample_text) (trim sample_text)
                   (testQueries ! 0)) (5 / 10) 300) (ok_reply sample_text),
        Sleep 2000]"
  let ?last = "Fetch (request_body (prompt1 (testQueries ! 1)) (3 / 10) 150) (Inl sample_error)"
  have key: "TOGETHER_API_KEY (Some (js ''key'')) \<noteq> placeholder_key"
    by (simp add: TOGETHER_API_KEY_def placeholder_key_def js_def)
  have i: "Suc 0 < length testQueries"
    by (simp add: length_testQueries)
  have at: "at_iteration ?svc testQueries (start 0) (Suc 0) = Some \<lparr>world = 5, events = ?es\<rparr>"
    by (simp add: run_fails_on_5 length_testQueries sleep_def)
  have run: "runPromptChain ?svc (testQueries ! Suc 0) \<lparr>world = 5, events = ?es\<rparr> =
      (Inl sample_error, \<lparr>world = 6, events = ?es @ [?last]\<rparr>)"
    by (simp add: run_fails_on_5_next)
  note ends = batch_abort[OF key, THEN conjunct1, rule_format]
  from ends[OF conjI[OF i conjI[OF at run]]] show ?thesis by simp
qed

end
